theory Spec2Isabelle
  imports Complex_Main
begin

text \<open>
  The driver \<^verbatim>\<open>run_BnpC.py\<close> of BnpC: the command-line boundary (\<^verbatim>\<open>parse_args\<close> with
  its three check functions) and \<^verbatim>\<open>main\<close>, which loads the data, drops the mutation
  sites without any call, derives the concentration prior, chooses between fixed and
  learned error rates, and hands model, sampler and run parameters to the library.
\<close>

section \<open>Python floats\<close>

text \<open>
  Every number the driver compares is a Python float (or an int default compared as a
  number).  What the comparisons of \<^verbatim>\<open>run_BnpC.py\<close> depend on is the order of the
  value and whether it is a number at all: \<^verbatim>\<open>float('nan')\<close>, \<^verbatim>\<open>float('inf')\<close> and
  \<^verbatim>\<open>float('-inf')\<close> are floats that \<^verbatim>\<open>float(val)\<close> returns for the strings
  \<^verbatim>\<open>nan\<close>, \<^verbatim>\<open>inf\<close>, \<^verbatim>\<open>-inf\<close>.  A finite float is modelled by the real number
  it denotes (rounding is not modelled).  Every comparison with NaN is False.
\<close>

datatype pyfloat = Finite real | PosInf | NegInf | NaN

fun py_lt :: "pyfloat \<Rightarrow> pyfloat \<Rightarrow> bool" where
  "py_lt NaN y = False"
| "py_lt x NaN = False"
| "py_lt (Finite a) (Finite b) = (a < b)"
| "py_lt (Finite a) PosInf = True"
| "py_lt (Finite a) NegInf = False"
| "py_lt NegInf (Finite b) = True"
| "py_lt NegInf PosInf = True"
| "py_lt NegInf NegInf = False"
| "py_lt PosInf y = False"

fun py_le :: "pyfloat \<Rightarrow> pyfloat \<Rightarrow> bool" where
  "py_le NaN y = False"
| "py_le x NaN = False"
| "py_le (Finite a) (Finite b) = (a \<le> b)"
| "py_le (Finite a) PosInf = True"
| "py_le (Finite a) NegInf = False"
| "py_le NegInf y = True"
| "py_le PosInf PosInf = True"
| "py_le PosInf y = False"

definition py_gt :: "pyfloat \<Rightarrow> pyfloat \<Rightarrow> bool" where
  "py_gt x y = py_lt y x"

definition py_ge :: "pyfloat \<Rightarrow> pyfloat \<Rightarrow> bool" where
  "py_ge x y = py_le y x"

fun isfinite :: "pyfloat \<Rightarrow> bool" where
  "isfinite (Finite a) = True"
| "isfinite x = False"

text \<open>\<^verbatim>\<open>x - y\<close> on floats, as far as the driver uses it (a finite constant is subtracted).\<close>

fun py_sub :: "pyfloat \<Rightarrow> pyfloat \<Rightarrow> pyfloat" where
  "py_sub NaN y = NaN"
| "py_sub x NaN = NaN"
| "py_sub (Finite a) (Finite b) = Finite (a - b)"
| "py_sub (Finite a) PosInf = NegInf"
| "py_sub (Finite a) NegInf = PosInf"
| "py_sub PosInf PosInf = NaN"
| "py_sub PosInf y = PosInf"
| "py_sub NegInf NegInf = NaN"
| "py_sub NegInf y = NegInf"

text \<open>\<^verbatim>\<open>np.sqrt\<close> of a length (a non-negative Python int).\<close>

definition np_sqrt :: "nat \<Rightarrow> pyfloat" where
  "np_sqrt n = Finite (sqrt (real n))"

text \<open>Membership of a closed interval, as Python's chained comparison
  \<^verbatim>\<open>lo <= v <= hi\<close> decides it.\<close>

definition in_range :: "real \<Rightarrow> real \<Rightarrow> pyfloat \<Rightarrow> bool" where
  "in_range lo hi v = (py_le (Finite lo) v \<and> py_le v (Finite hi))"


section \<open>Errors\<close>

datatype error =
    ArgumentTypeError
  | ValueError
  | MissingArgument
  | InvalidChoice
  | KeyError string
  | IndexError
  | LibraryError string

definition and_then :: "error + 'a \<Rightarrow> ('a \<Rightarrow> error + 'b) \<Rightarrow> error + 'b" where
  "and_then m f = (case m of Inl e \<Rightarrow> Inl e | Inr x \<Rightarrow> f x)"


section \<open>The command line and \<^verbatim>\<open>parse_args\<close>\<close>

text \<open>
  The command line is taken as \<^verbatim>\<open>argparse\<close> has split it: every option is either
  omitted or given once with its argument strings.  Where the option's \<^verbatim>\<open>type\<close>
  starts by calling the builtin \<^verbatim>\<open>float\<close> or \<^verbatim>\<open>int\<close> on the string, the model carries
  the outcome of that call: \<open>None\<close> when it raises \<^verbatim>\<open>ValueError\<close>, the number
  otherwise.  Flags (\<^verbatim>\<open>store_true\<close>, \<^verbatim>\<open>store_false\<close>) are booleans: whether the flag
  occurs on the command line.  \<^verbatim>\<open>argparse\<close> reports the first option that fails in the
  order of the command line; the model converts the options in the order of their
  declaration, which changes which error is reported when several options fail, not
  whether the command line is accepted.
\<close>

datatype 'a cli = Omitted | Given 'a

record cmdline =
  cl_input :: "string cli"
  cl_transpose :: bool
  cl_debug :: bool
  cl_ctypes :: "string cli"
  cl_scDNA :: "string cli"
  cl_falseNegative :: "pyfloat option cli"
  cl_falsePositive :: "pyfloat option cli"
  cl_falseNegative_mean :: "pyfloat option cli"
  cl_falseNegative_std :: "pyfloat option cli"
  cl_falsePositive_mean :: "pyfloat option cli"
  cl_falsePositive_std :: "pyfloat option cli"
  cl_DPa_prior :: "(pyfloat option \<times> pyfloat option) cli"
  cl_param_prior :: "(pyfloat option \<times> pyfloat option) cli"
  cl_fixed_assignment :: "string cli"
  cl_chains :: "int option cli"
  cl_steps :: "int option cli"
  cl_runtime :: "int option cli"
  cl_lugsail :: "pyfloat option cli"
  cl_burn_in :: "pyfloat option cli"
  cl_conc_update_prob :: "pyfloat option cli"
  cl_error_update_prob :: "pyfloat option cli"
  cl_split_merge_prob :: "pyfloat option cli"
  cl_split_merge_steps :: "int option cli"
  cl_split_merge_ratios :: "(pyfloat option \<times> pyfloat option) cli"
  cl_estimator :: "string list cli"
  cl_single_chains :: bool
  cl_seed :: "int option cli"
  cl_output :: "string cli"
  cl_verbosity :: "int option cli"
  cl_no_plots :: bool
  cl_tree :: "string cli"
  cl_true_clusters :: "string cli"
  cl_true_data :: "string cli"

text \<open>The namespace \<^verbatim>\<open>parse_args\<close> returns.  \<^verbatim>\<open>ctypes\<close> and \<^verbatim>\<open>scDNA\<close> have no
  default, so they are \<^verbatim>\<open>None\<close> when omitted; \<^verbatim>\<open>estimator\<close> is the string
  \<^verbatim>\<open>'posterior'\<close> when omitted and a list when given.\<close>

datatype estimator_value = EstimatorDefault string | EstimatorList "string list"

record args =
  input :: string
  transpose_arg :: bool
  debug :: bool
  ctypes :: "string option"
  scDNA :: "string option"
  falseNegative :: pyfloat
  falsePositive :: pyfloat
  falseNegative_mean :: pyfloat
  falseNegative_std :: pyfloat
  falsePositive_mean :: pyfloat
  falsePositive_std :: pyfloat
  DPa_prior :: "pyfloat \<times> pyfloat"
  param_prior :: "pyfloat \<times> pyfloat"
  fixed_assignment :: string
  chains_arg :: int
  steps :: int
  runtime :: int
  lugsail :: pyfloat
  burn_in :: pyfloat
  conc_update_prob :: pyfloat
  error_update_prob :: pyfloat
  split_merge_prob :: pyfloat
  split_merge_steps :: int
  split_merge_ratios :: "pyfloat \<times> pyfloat"
  estimator :: estimator_value
  single_chains :: bool
  seed :: int
  output_dir :: string
  verbosity :: int
  no_plots :: bool
  tree :: string
  true_clusters :: string
  true_data :: string

subsection \<open>The \<^verbatim>\<open>type\<close> functions\<close>

text \<open>Each takes the outcome of \<^verbatim>\<open>float(val)\<close>; a \<^verbatim>\<open>ValueError\<close> of the builtin
  leaves the function as it is raised.\<close>

definition check_ratio :: "pyfloat option \<Rightarrow> error + pyfloat" where
  "check_ratio val =
     (case val of
        None \<Rightarrow> Inl ValueError
      | Some v \<Rightarrow>
          if py_le v (Finite 0) \<or> py_ge v (Finite 1) then Inl ArgumentTypeError
          else Inr v)"

definition check_percent :: "pyfloat option \<Rightarrow> error + pyfloat" where
  "check_percent val =
     (case val of
        None \<Rightarrow> Inl ValueError
      | Some v \<Rightarrow>
          if py_lt v (Finite 0) \<or> py_gt v (Finite 1) then Inl ArgumentTypeError
          else Inr v)"

definition check_PSRF_cutoff :: "pyfloat option \<Rightarrow> error + pyfloat" where
  "check_PSRF_cutoff val =
     (case val of
        None \<Rightarrow> Inl ValueError
      | Some v \<Rightarrow>
          if py_lt v (Finite 1) \<or> py_gt v (Finite (3 / 2)) then Inl ArgumentTypeError
          else Inr v)"

text \<open>\<^verbatim>\<open>type=float\<close>, \<^verbatim>\<open>type=int\<close> and \<^verbatim>\<open>type=str\<close>: the builtin alone.\<close>

definition type_float :: "pyfloat option \<Rightarrow> error + pyfloat" where
  "type_float val = (case val of None \<Rightarrow> Inl ValueError | Some v \<Rightarrow> Inr v)"

definition type_int :: "int option \<Rightarrow> error + int" where
  "type_int val = (case val of None \<Rightarrow> Inl ValueError | Some v \<Rightarrow> Inr v)"

definition type_str :: "string \<Rightarrow> error + string" where
  "type_str val = Inr val"

text \<open>An option with \<^verbatim>\<open>nargs=2\<close> converts both strings, the first one first.\<close>

definition nargs2 :: "('r \<Rightarrow> error + 'a) \<Rightarrow> 'r \<times> 'r \<Rightarrow> error + 'a \<times> 'a" where
  "nargs2 ty vals =
     and_then (ty (fst vals)) (\<lambda>x. and_then (ty (snd vals)) (\<lambda>y. Inr (x, y)))"

text \<open>\<^verbatim>\<open>choices=[...]\<close>: the converted value must be one of the list.\<close>

definition with_choices :: "'a list \<Rightarrow> ('r \<Rightarrow> error + 'a) \<Rightarrow> 'r \<Rightarrow> error + 'a" where
  "with_choices cs ty val =
     and_then (ty val) (\<lambda>x. if x \<in> set cs then Inr x else Inl InvalidChoice)"

text \<open>\<^verbatim>\<open>nargs='+'\<close>: at least one string, each converted and checked in turn.\<close>

fun each_value :: "('r \<Rightarrow> error + 'a) \<Rightarrow> 'r list \<Rightarrow> error + 'a list" where
  "each_value ty [] = Inr []"
| "each_value ty (v # vs) =
     and_then (ty v) (\<lambda>x. and_then (each_value ty vs) (\<lambda>xs. Inr (x # xs)))"

definition nargs_plus :: "('r \<Rightarrow> error + 'a) \<Rightarrow> 'r list \<Rightarrow> error + 'a list" where
  "nargs_plus ty vals = (if vals = [] then Inl MissingArgument else each_value ty vals)"

text \<open>
  An option that is given has its strings converted by its \<^verbatim>\<open>type\<close>; an option that is
  omitted takes its \<^verbatim>\<open>default\<close>.  \<^verbatim>\<open>argparse\<close> passes a default through \<^verbatim>\<open>type\<close> only
  when the default is a string, and the only string defaults here belong to
  \<^verbatim>\<open>type=str\<close> options: no default of \<^verbatim>\<open>parse_args\<close> is checked by a \<^verbatim>\<open>check_*\<close>
  function.
\<close>

definition option_value :: "('r \<Rightarrow> error + 'a) \<Rightarrow> 'a \<Rightarrow> 'r cli \<Rightarrow> error + 'a" where
  "option_value ty dflt given =
     (case given of Omitted \<Rightarrow> Inr dflt | Given val \<Rightarrow> ty val)"

text \<open>The positional \<^verbatim>\<open>input\<close> is required.\<close>

definition positional :: "string cli \<Rightarrow> error + string" where
  "positional given = (case given of Omitted \<Rightarrow> Inl MissingArgument | Given val \<Rightarrow> Inr val)"

text \<open>An option without default (\<^verbatim>\<open>--ctypes\<close>, \<^verbatim>\<open>--scDNA\<close>) is \<^verbatim>\<open>None\<close> when omitted.\<close>

definition optional_str :: "string cli \<Rightarrow> string option" where
  "optional_str given = (case given of Omitted \<Rightarrow> None | Given val \<Rightarrow> Some val)"

subsection \<open>\<^verbatim>\<open>parse_args\<close>\<close>

text \<open>
  The options in the order of their declaration.  \<^verbatim>\<open>--transpose\<close> is
  \<^verbatim>\<open>store_false\<close>: the attribute is True unless the flag occurs.  \<^verbatim>\<open>--debug\<close>,
  \<^verbatim>\<open>--single_chains\<close> and \<^verbatim>\<open>--no_plots\<close> are \<^verbatim>\<open>store_true\<close> with default False.
\<close>

definition parse_args :: "cmdline \<Rightarrow> error + args" where
  "parse_args cl =
     and_then (positional (cl_input cl)) (\<lambda>v_input.
     and_then (option_value type_float (Finite (- 1)) (cl_falseNegative cl)) (\<lambda>v_FN.
     and_then (option_value type_float (Finite (- 1)) (cl_falsePositive cl)) (\<lambda>v_FP.
     and_then (option_value check_ratio (Finite (2 / 10)) (cl_falseNegative_mean cl)) (\<lambda>v_FN_m.
     and_then (option_value check_ratio (Finite (1 / 10)) (cl_falseNegative_std cl)) (\<lambda>v_FN_sd.
     and_then (option_value check_ratio (Finite (1 / 100)) (cl_falsePositive_mean cl)) (\<lambda>v_FP_m.
     and_then (option_value check_ratio (Finite (1 / 100)) (cl_falsePositive_std cl)) (\<lambda>v_FP_sd.
     and_then (option_value (nargs2 type_float) (Finite (- 1), Finite (- 1)) (cl_DPa_prior cl)) (\<lambda>v_ap.
     and_then (option_value (nargs2 type_float) (Finite (25 / 100), Finite (25 / 100))
                 (cl_param_prior cl)) (\<lambda>v_pp.
     and_then (option_value type_str [] (cl_fixed_assignment cl)) (\<lambda>v_fa.
     and_then (option_value type_int 1 (cl_chains cl)) (\<lambda>v_n.
     and_then (option_value type_int 5000 (cl_steps cl)) (\<lambda>v_s.
     and_then (option_value type_int (- 1) (cl_runtime cl)) (\<lambda>v_r.
     and_then (option_value check_PSRF_cutoff (Finite (- 1)) (cl_lugsail cl)) (\<lambda>v_ls.
     and_then (option_value check_percent (Finite (33 / 100)) (cl_burn_in cl)) (\<lambda>v_b.
     and_then (option_value check_percent (Finite (25 / 100)) (cl_conc_update_prob cl)) (\<lambda>v_cup.
     and_then (option_value check_percent (Finite (25 / 100)) (cl_error_update_prob cl)) (\<lambda>v_eup.
     and_then (option_value check_percent (Finite (33 / 100)) (cl_split_merge_prob cl)) (\<lambda>v_smp.
     and_then (option_value type_int 3 (cl_split_merge_steps cl)) (\<lambda>v_sms.
     and_then (option_value (nargs2 check_percent) (Finite (75 / 100), Finite (25 / 100))
                 (cl_split_merge_ratios cl)) (\<lambda>v_smr.
     and_then (option_value
                 (\<lambda>vals. and_then
                    (nargs_plus (with_choices [''posterior'', ''ML'', ''MAP''] type_str) vals)
                    (\<lambda>xs. Inr (EstimatorList xs)))
                 (EstimatorDefault ''posterior'') (cl_estimator cl)) (\<lambda>v_e.
     and_then (option_value type_int (- 1) (cl_seed cl)) (\<lambda>v_seed.
     and_then (option_value type_str [] (cl_output cl)) (\<lambda>v_o.
     and_then (option_value (with_choices [0, 1, 2] type_int) 1 (cl_verbosity cl)) (\<lambda>v_v.
     and_then (option_value type_str [] (cl_tree cl)) (\<lambda>v_tr.
     and_then (option_value type_str [] (cl_true_clusters cl)) (\<lambda>v_tc.
     and_then (option_value type_str [] (cl_true_data cl)) (\<lambda>v_td.
       Inr \<lparr> input = v_input,
             transpose_arg = (\<not> cl_transpose cl),
             debug = cl_debug cl,
             ctypes = optional_str (cl_ctypes cl),
             scDNA = optional_str (cl_scDNA cl),
             falseNegative = v_FN,
             falsePositive = v_FP,
             falseNegative_mean = v_FN_m,
             falseNegative_std = v_FN_sd,
             falsePositive_mean = v_FP_m,
             falsePositive_std = v_FP_sd,
             DPa_prior = v_ap,
             param_prior = v_pp,
             fixed_assignment = v_fa,
             chains_arg = v_n,
             steps = v_s,
             runtime = v_r,
             lugsail = v_ls,
             burn_in = v_b,
             conc_update_prob = v_cup,
             error_update_prob = v_eup,
             split_merge_prob = v_smp,
             split_merge_steps = v_sms,
             split_merge_ratios = v_smr,
             estimator = v_e,
             single_chains = cl_single_chains cl,
             seed = v_seed,
             output_dir = v_o,
             verbosity = v_v,
             no_plots = cl_no_plots cl,
             tree = v_tr,
             true_clusters = v_tc,
             true_data = v_td \<rparr>)))))))))))))))))))))))))))"


text \<open>The program's entry: \<^verbatim>\<open>args = parse_args()\<close>.  A command line with \<^verbatim>\<open>-h\<close> or
  \<^verbatim>\<open>--version\<close> prints and exits inside \<^verbatim>\<open>argparse\<close>; such command lines are not
  values of \<^typ>\<open>cmdline\<close>.\<close>


section \<open>Arrays and tables\<close>

text \<open>A two-dimensional \<^verbatim>\<open>numpy\<close> array of floats: its shape and its rows.\<close>

record matrix =
  nrows :: nat
  ncols :: nat
  cells :: "pyfloat list list"

definition wf_matrix :: "matrix \<Rightarrow> bool" where
  "wf_matrix m =
     (length (cells m) = nrows m \<and> list_all (\<lambda>r. length r = ncols m) (cells m))"

text \<open>Indexing with a boolean mask keeps the positions where the mask is True.\<close>

definition select :: "bool list \<Rightarrow> 'a list \<Rightarrow> 'a list" where
  "select keep xs = map snd (filter fst (zip keep xs))"

text \<open>\<^verbatim>\<open>a[:, mask]\<close>: \<^verbatim>\<open>numpy\<close> raises \<^verbatim>\<open>IndexError\<close> when the mask's length is not
  the size of the axis.\<close>

definition mask_columns :: "matrix \<Rightarrow> bool list \<Rightarrow> error + matrix" where
  "mask_columns m keep =
     (if length keep \<noteq> ncols m then Inl IndexError
      else Inr \<lparr> nrows = nrows m,
                 ncols = length (filter (\<lambda>b. b) keep),
                 cells = map (select keep) (cells m) \<rparr>)"

text \<open>\<^verbatim>\<open>v[mask]\<close> on a one-dimensional array.\<close>

definition mask_vector :: "'a list \<Rightarrow> bool list \<Rightarrow> error + 'a list" where
  "mask_vector v keep =
     (if length keep \<noteq> length v then Inl IndexError else Inr (select keep v))"

text \<open>\<^verbatim>\<open>np.isfinite(data).mean(axis=0)\<close> at column \<open>j\<close>: the fraction of finite
  entries of the column; the mean of an empty column is NaN.\<close>

definition isfinite_mean :: "matrix \<Rightarrow> nat \<Rightarrow> pyfloat" where
  "isfinite_mean m j =
     (if nrows m = 0 then NaN
      else Finite (real (length (filter (\<lambda>r. isfinite (r ! j)) (cells m))) / real (nrows m)))"

text \<open>\<^verbatim>\<open>rel_muts = np.isfinite(data).mean(axis=0) > 0\<close>\<close>

definition rel_muts :: "matrix \<Rightarrow> bool list" where
  "rel_muts m = map (\<lambda>j. py_gt (isfinite_mean m j) (Finite 0)) [0..<ncols m]"

text \<open>A \<^verbatim>\<open>pandas\<close> table: its columns by name (names distinct), each with one cell per
  row.  A cell read from a file is a string or a number (a missing cell is the number
  NaN).\<close>

datatype cell = Str string | Num pyfloat

type_synonym dataframe = "(string \<times> cell list) list"

text \<open>\<^verbatim>\<open>df[name]\<close> raises \<^verbatim>\<open>KeyError\<close> when the table has no such column.\<close>

definition getitem :: "dataframe \<Rightarrow> string \<Rightarrow> error + cell list" where
  "getitem df name = (case map_of df name of None \<Rightarrow> Inl (KeyError name) | Some col \<Rightarrow> Inr col)"

text \<open>\<^verbatim>\<open>df[mask]\<close> with a boolean mask computed from a column of \<^verbatim>\<open>df\<close> keeps the rows
  where the mask is True, in every column.\<close>

definition mask_rows :: "dataframe \<Rightarrow> bool list \<Rightarrow> dataframe" where
  "mask_rows df keep = map (\<lambda>(name, col). (name, select keep col)) df"

text \<open>\<^verbatim>\<open>len(df)\<close>: the number of rows.\<close>

definition len_df :: "dataframe \<Rightarrow> nat" where
  "len_df df = (case df of [] \<Rightarrow> 0 | (name, col) # rest \<Rightarrow> length col)"


section \<open>The collaborators of \<^verbatim>\<open>main\<close>\<close>

text \<open>
  \<^verbatim>\<open>main\<close> calls \<^verbatim>\<open>pandas\<close> and the modules \<^verbatim>\<open>libs.dpmmIO\<close>, \<^verbatim>\<open>libs.CRP\<close>,
  \<^verbatim>\<open>libs.CRP_learning_errors\<close> and \<^verbatim>\<open>libs.MCMC\<close>.  The calls that bring values into
  \<^verbatim>\<open>main\<close> are parameters of the model, each of which may raise:
  \<^item> \<open>read_ctypes\<close>: \<^verbatim>\<open>pd.read_csv(ctypes, sep='\t')\<close> followed by the \<^verbatim>\<open>pandas\<close>
    preparation of the table up to \<^verbatim>\<open>reset_index()\<close> (it drops the rows of the distal
    biopsy, sorts, and adds the columns \<^verbatim>\<open>CellTypes\<close> and \<^verbatim>\<open>index\<close>);
  \<^item> \<open>read_scDNA\<close>: \<^verbatim>\<open>pd.read_csv(args.scDNA, sep='\t', index_col=0)\<close>;
  \<^item> \<open>process_sim_folder\<close>: \<^verbatim>\<open>io.process_sim_folder(args, suffix='')\<close>, which receives the
    namespace and may assign to it;
  \<^item> \<open>load_data\<close>: \<^verbatim>\<open>io.load_data(args.input, ctypes_df, transpose=..., get_names=True)\<close>,
    returning the data matrix, the fraction matrix, the cell names and the mutation names;
  \<^item> \<open>get_mcmc_termination\<close>: \<^verbatim>\<open>io._get_mcmc_termination(args)\<close>, whose first result
    is handed to \<^verbatim>\<open>mcmc.run\<close> unread.
  The calls that take values out of \<^verbatim>\<open>main\<close> (the two model constructors, \<^verbatim>\<open>MCMC\<close>,
  \<^verbatim>\<open>mcmc.run\<close>, \<^verbatim>\<open>generate_output\<close>) are recorded with their arguments.
\<close>

record 'rv env =
  read_ctypes :: "string option \<Rightarrow> error + dataframe"
  read_scDNA :: "string option \<Rightarrow> error + dataframe"
  process_sim_folder :: "args \<Rightarrow> error + args"
  load_data :: "string \<Rightarrow> dataframe \<Rightarrow> bool
                  \<Rightarrow> error + matrix \<times> matrix \<times> string list \<times> string list"
  get_mcmc_termination :: "args \<Rightarrow> error + 'rv"

text \<open>\<^verbatim>\<open>CRP.CRP(data, DP_alpha=, param_beta=, FN_error=, FP_error=)\<close> and
  \<^verbatim>\<open>CRP.CRP_errors_learning(data, DP_alpha=, param_beta=, FP_mean=, FP_sd=, FN_mean=,
  FN_sd=)\<close>, arguments in this order.\<close>

datatype model_call =
    CRP matrix "pyfloat \<times> pyfloat" "pyfloat \<times> pyfloat" pyfloat pyfloat
  | CRP_errors_learning matrix "pyfloat \<times> pyfloat" "pyfloat \<times> pyfloat"
      pyfloat pyfloat pyfloat pyfloat

record mcmc_call =
  sm_prob :: pyfloat
  dpa_prob :: pyfloat
  error_prob :: pyfloat
  sm_ratios :: "pyfloat \<times> pyfloat"
  sm_steps :: int

text \<open>\<^verbatim>\<open>mcmc.run(run_var, args.seed, args.chains, args.verbosity, args.fixed_assignment,
  args.debug)\<close>\<close>

record 'rv run_call =
  run_var :: 'rv
  run_seed :: int
  run_chains :: int
  run_verbosity :: int
  run_fixed_assignment :: string
  run_debug :: bool

text \<open>What \<^verbatim>\<open>main\<close> has done when it reaches \<^verbatim>\<open>generate_output\<close>: the model it built,
  the sampler it built, the run it started, and what it hands to the output layer.\<close>

record 'rv outcome =
  BnpC :: model_call
  mcmc :: mcmc_call
  mcmc_run :: "'rv run_call"
  out_args :: args
  out_data :: matrix
  out_data_frac :: matrix
  out_data_names :: "string list \<times> string list"
  out_ctypes_df :: dataframe
  out_scDNA_df :: dataframe


section \<open>\<^verbatim>\<open>main\<close>\<close>

text \<open>
  Line by line.  The \<^verbatim>\<open>try\<close> around the count of cancer cells catches \<^verbatim>\<open>KeyError\<close>
  only.  In fixed-error mode the namespace is assigned \<^verbatim>\<open>error_update_prob = 0\<close> before
  the sampler is built; in debug mode it is assigned \<^verbatim>\<open>chains = 1\<close> before the run.
  Printing and the time stamps are left out.
\<close>

definition main :: "'rv env \<Rightarrow> args \<Rightarrow> error + 'rv outcome" where
  "main env args0 =
     and_then (read_ctypes env (ctypes args0)) (\<lambda>ctypes_df0.
     and_then (read_scDNA env (scDNA args0)) (\<lambda>scDNA_df.
     and_then (process_sim_folder env args0) (\<lambda>args1.
     and_then (load_data env (input args1) ctypes_df0 (transpose_arg args1))
       (\<lambda>(data0, data_frac0, names0, names1).
     and_then (getitem ctypes_df0 ''barcodes'') (\<lambda>barcodes.
     let ctypes_df = mask_rows ctypes_df0 (map (\<lambda>b. b \<in> Str ` set names0) barcodes);
         keep = rel_muts data0
     in
     and_then (mask_columns data0 keep) (\<lambda>data.
     and_then (mask_columns data_frac0 keep) (\<lambda>data_frac.
     and_then (mask_vector names1 keep) (\<lambda>names1'.
     and_then
       (if py_lt (fst (DPa_prior args1)) (Finite 0) \<or> py_lt (snd (DPa_prior args1)) (Finite 0)
        then
          (case getitem ctypes_df ''Corrected'' of
             Inl (KeyError k) \<Rightarrow> Inr (np_sqrt (nrows data), Finite 1)
           | Inl e \<Rightarrow> Inl e
           | Inr corrected \<Rightarrow>
               let cancer_cells_total =
                     len_df (mask_rows ctypes_df (map (\<lambda>c. c = Str ''Cancer'') corrected))
               in Inr (py_sub (np_sqrt cancer_cells_total) (Finite 5), Finite 1))
        else Inr (DPa_prior args1)) (\<lambda>DP_alpha.
     let fixed = (py_ge (falsePositive args1) (Finite 0) \<and> py_ge (falseNegative args1) (Finite 0));
         args2 = (if fixed then args1\<lparr>error_update_prob := Finite 0\<rparr> else args1);
         model =
           (if fixed
            then CRP data DP_alpha (param_prior args2) (falseNegative args2) (falsePositive args2)
            else CRP_errors_learning data DP_alpha (param_prior args2)
                   (falsePositive_mean args2) (falsePositive_std args2)
                   (falseNegative_mean args2) (falseNegative_std args2))
     in
     and_then (get_mcmc_termination env args2) (\<lambda>rv.
     let sampler = \<lparr> sm_prob = split_merge_prob args2,
                     dpa_prob = conc_update_prob args2,
                     error_prob = error_update_prob args2,
                     sm_ratios = split_merge_ratios args2,
                     sm_steps = split_merge_steps args2 \<rparr>;
         args3 = (if debug args2 then args2\<lparr>chains_arg := 1\<rparr> else args2)
     in
       Inr \<lparr> BnpC = model,
             mcmc = sampler,
             mcmc_run = \<lparr> run_var = rv,
                          run_seed = seed args3,
                          run_chains = chains_arg args3,
                          run_verbosity = verbosity args3,
                          run_fixed_assignment = fixed_assignment args3,
                          run_debug = debug args3 \<rparr>,
             out_args = args3,
             out_data = data,
             out_data_frac = data_frac,
             out_data_names = (names0, names1'),
             out_ctypes_df = ctypes_df,
             out_scDNA_df = scDNA_df \<rparr>))))))))))"

text \<open>\<^verbatim>\<open>args = parse_args(); main(args)\<close>\<close>

definition run_BnpC :: "'rv env \<Rightarrow> cmdline \<Rightarrow> error + 'rv outcome" where
  "run_BnpC env cl = and_then (parse_args cl) (main env)"



section \<open>Reading the calls and the tables\<close>

text \<open>The \<^verbatim>\<open>data\<close> and \<^verbatim>\<open>DP_alpha\<close> arguments of either model constructor.\<close>

fun data_of :: "model_call \<Rightarrow> matrix" where
  "data_of (CRP d dp pb fn fp) = d"
| "data_of (CRP_errors_learning d dp pb fpm fps fnm fns) = d"

fun DP_alpha_of :: "model_call \<Rightarrow> pyfloat \<times> pyfloat" where
  "DP_alpha_of (CRP d dp pb fn fp) = dp"
| "DP_alpha_of (CRP_errors_learning d dp pb fpm fps fnm fns) = dp"

text \<open>Column \<open>j\<close> of a matrix has a finite entry in some row.\<close>

definition has_finite_entry :: "matrix \<Rightarrow> nat \<Rightarrow> bool" where
  "has_finite_entry m j = list_ex (\<lambda>r. isfinite (r ! j)) (cells m)"

text \<open>The position, in the unmasked list, of the \<open>n\<close>-th element a mask keeps.\<close>

fun kept_index :: "bool list \<Rightarrow> nat \<Rightarrow> nat" where
  "kept_index [] n = 0"
| "kept_index (False # ks) n = Suc (kept_index ks n)"
| "kept_index (True # ks) 0 = 0"
| "kept_index (True # ks) (Suc n) = Suc (kept_index ks n)"

text \<open>A table is well formed when all its columns have the same number of rows.\<close>

definition wf_dataframe :: "dataframe \<Rightarrow> bool" where
  "wf_dataframe df = list_all (\<lambda>(name, col). length col = len_df df) df"

text \<open>The rows of the cell-type table whose barcode is a cell of the data and whose
  \<^verbatim>\<open>Corrected\<close> entry is \<^verbatim>\<open>'Cancer'\<close>, counted.\<close>

definition cancer_cells :: "cell list \<Rightarrow> cell list \<Rightarrow> string list \<Rightarrow> nat" where
  "cancer_cells barcodes corrected names0 =
     length (filter (\<lambda>(b, c). b \<in> Str ` set names0 \<and> c = Str ''Cancer'')
               (zip barcodes corrected))"


section \<open>Example inputs\<close>

text \<open>\<^verbatim>\<open>python3 run_BnpC.py <i> --ctypes <c> --scDNA <s>\<close>\<close>

definition plain_cmdline :: "string \<Rightarrow> string \<Rightarrow> string \<Rightarrow> cmdline" where
  "plain_cmdline i c s =
     \<lparr> cl_input = Given i, cl_transpose = False, cl_debug = False,
       cl_ctypes = Given c, cl_scDNA = Given s,
       cl_falseNegative = Omitted, cl_falsePositive = Omitted,
       cl_falseNegative_mean = Omitted, cl_falseNegative_std = Omitted,
       cl_falsePositive_mean = Omitted, cl_falsePositive_std = Omitted,
       cl_DPa_prior = Omitted, cl_param_prior = Omitted, cl_fixed_assignment = Omitted,
       cl_chains = Omitted, cl_steps = Omitted, cl_runtime = Omitted, cl_lugsail = Omitted,
       cl_burn_in = Omitted, cl_conc_update_prob = Omitted, cl_error_update_prob = Omitted,
       cl_split_merge_prob = Omitted, cl_split_merge_steps = Omitted,
       cl_split_merge_ratios = Omitted, cl_estimator = Omitted, cl_single_chains = False,
       cl_seed = Omitted, cl_output = Omitted, cl_verbosity = Omitted, cl_no_plots = False,
       cl_tree = Omitted, cl_true_clusters = Omitted, cl_true_data = Omitted \<rparr>"

text \<open>The namespace of that command line: every default.\<close>

definition default_args :: "string \<Rightarrow> string \<Rightarrow> string \<Rightarrow> args" where
  "default_args i c s =
     \<lparr> input = i, transpose_arg = True, debug = False,
       ctypes = Some c, scDNA = Some s,
       falseNegative = Finite (- 1), falsePositive = Finite (- 1),
       falseNegative_mean = Finite (2 / 10), falseNegative_std = Finite (1 / 10),
       falsePositive_mean = Finite (1 / 100), falsePositive_std = Finite (1 / 100),
       DPa_prior = (Finite (- 1), Finite (- 1)),
       param_prior = (Finite (25 / 100), Finite (25 / 100)),
       fixed_assignment = [], chains_arg = 1, steps = 5000, runtime = - 1,
       lugsail = Finite (- 1), burn_in = Finite (33 / 100),
       conc_update_prob = Finite (25 / 100), error_update_prob = Finite (25 / 100),
       split_merge_prob = Finite (33 / 100), split_merge_steps = 3,
       split_merge_ratios = (Finite (75 / 100), Finite (25 / 100)),
       estimator = EstimatorDefault ''posterior'', single_chains = False,
       seed = - 1, output_dir = [], verbosity = 1, no_plots = False,
       tree = [], true_clusters = [], true_data = [] \<rparr>"

definition ex_cmdline :: cmdline where
  "ex_cmdline = plain_cmdline ''data.csv'' ''ctypes.tsv'' ''scdna.tsv''"

definition ex_args :: args where
  "ex_args = default_args ''data.csv'' ''ctypes.tsv'' ''scdna.tsv''"

text \<open>Two cells, three mutation sites; no cell has a call at the second site.\<close>

definition ex_data :: matrix where
  "ex_data = \<lparr> nrows = 2, ncols = 3,
                cells = [[Finite 1, NaN, Finite 0], [NaN, NaN, Finite 1]] \<rparr>"

definition ex_frac :: matrix where
  "ex_frac = \<lparr> nrows = 2, ncols = 3,
                cells = [[Finite (1 / 2), NaN, Finite 0], [NaN, NaN, Finite 1]] \<rparr>"

text \<open>A prepared cell-type table of three cells, one of them (\<^verbatim>\<open>c9\<close>) not in the
  data, without the column \<^verbatim>\<open>Corrected\<close>; and the same table with it, where one of
  the two cells of the data is a cancer cell.\<close>

definition ex_table_plain :: dataframe where
  "ex_table_plain =
     [(''index'', [Num (Finite 0), Num (Finite 2), Num (Finite 1)]),
      (''barcodes'', [Str ''c1'', Str ''c9'', Str ''c2'']),
      (''biopsy'', [Str ''Omentum'', Str ''Omentum'', Str ''Omentum'']),
      (''celltype_final'', [Str ''HGSOC'', Str ''HGSOC'', Str ''T.NK.cells'']),
      (''Color'', [Str ''red'', Str ''red'', Str ''blue'']),
      (''CellTypes'', [Str ''red'', Str ''red'', Str ''blue''])]"

definition ex_table :: dataframe where
  "ex_table =
     ex_table_plain @ [(''Corrected'', [Str ''Cancer'', Str ''Cancer'', Str ''Normal''])]"

text \<open>Collaborators that read the table and the data above from any file, leave the
  namespace alone, and return the step count as the termination variable.\<close>

definition ex_env :: "dataframe \<Rightarrow> int env" where
  "ex_env tbl =
     \<lparr> read_ctypes =
         (\<lambda>p. case p of None \<Rightarrow> Inl (LibraryError ''read_csv'') | Some file \<Rightarrow> Inr tbl),
       read_scDNA =
         (\<lambda>p. case p of None \<Rightarrow> Inl (LibraryError ''read_csv'') | Some file \<Rightarrow> Inr []),
       process_sim_folder = Inr,
       load_data =
         (\<lambda>i df t. Inr (ex_data, ex_frac, [''c1'', ''c2''], [''m1'', ''m2'', ''m3''])),
       get_mcmc_termination = (\<lambda>a. Inr (steps a)) \<rparr>"


section \<open>Basic facts\<close>

lemma and_then_Inr_iff: "and_then m f = Inr y \<longleftrightarrow> (\<exists>x. m = Inr x \<and> f x = Inr y)"
  by (cases m) (simp_all add: and_then_def)

lemma option_value_Omitted: "option_value ty dflt Omitted = Inr dflt"
  by (simp add: option_value_def)

lemma option_value_Given: "option_value ty dflt (Given val) = ty val"
  by (simp add: option_value_def)

lemma py_lt_not_py_ge: "py_lt x (Finite c) \<Longrightarrow> \<not> py_ge x (Finite c)"
  by (cases x) (auto simp: py_ge_def)

subsection \<open>What the \<^verbatim>\<open>check_*\<close> functions accept\<close>

lemma check_percent_Inr:
  "check_percent val = Inr v \<longleftrightarrow> val = Some v \<and> (v = NaN \<or> in_range 0 1 v)"
  by (cases val; cases v) (auto simp: check_percent_def in_range_def py_gt_def)

lemma check_PSRF_cutoff_Inr:
  "check_PSRF_cutoff val = Inr v \<longleftrightarrow> val = Some v \<and> (v = NaN \<or> in_range 1 (3 / 2) v)"
  by (cases val; cases v) (auto simp: check_PSRF_cutoff_def in_range_def py_gt_def)

lemma type_float_Inr: "type_float val = Inr v \<longleftrightarrow> val = Some v"
  by (cases val) (auto simp: type_float_def)

lemma nargs2_Inr:
  "nargs2 ty vals = Inr p \<longleftrightarrow> ty (fst vals) = Inr (fst p) \<and> ty (snd vals) = Inr (snd p)"
  by (cases p) (auto simp: nargs2_def and_then_Inr_iff)

subsection \<open>The namespace of an accepted command line\<close>

lemma parse_args_Inr:
  assumes "parse_args cl = Inr a"
  shows "transpose_arg a = (\<not> cl_transpose cl)"
    and "debug a = cl_debug cl"
    and "option_value type_float (Finite (- 1)) (cl_falseNegative cl) = Inr (falseNegative a)"
    and "option_value type_float (Finite (- 1)) (cl_falsePositive cl) = Inr (falsePositive a)"
    and "option_value check_PSRF_cutoff (Finite (- 1)) (cl_lugsail cl) = Inr (lugsail a)"
    and "option_value check_percent (Finite (33 / 100)) (cl_burn_in cl) = Inr (burn_in a)"
    and "option_value check_percent (Finite (25 / 100)) (cl_conc_update_prob cl)
           = Inr (conc_update_prob a)"
    and "option_value check_percent (Finite (25 / 100)) (cl_error_update_prob cl)
           = Inr (error_update_prob a)"
    and "option_value check_percent (Finite (33 / 100)) (cl_split_merge_prob cl)
           = Inr (split_merge_prob a)"
    and "option_value (nargs2 check_percent) (Finite (75 / 100), Finite (25 / 100))
           (cl_split_merge_ratios cl) = Inr (split_merge_ratios a)"
  using assms by (auto simp: parse_args_def and_then_Inr_iff)

lemma parse_args_plain:
  "parse_args (plain_cmdline i c s) = Inr (default_args i c s)"
  by (simp add: parse_args_def plain_cmdline_def default_args_def and_then_def
        option_value_def positional_def optional_str_def)

text \<open>Every probability option and the cutoff, when given and accepted, is in its
  interval or is NaN.\<close>

lemma given_probability_checked:
  assumes "parse_args cl = Inr a"
  shows "cl_burn_in cl = Given val \<Longrightarrow> burn_in a = NaN \<or> in_range 0 1 (burn_in a)"
    and "cl_conc_update_prob cl = Given val \<Longrightarrow>
           conc_update_prob a = NaN \<or> in_range 0 1 (conc_update_prob a)"
    and "cl_error_update_prob cl = Given val \<Longrightarrow>
           error_update_prob a = NaN \<or> in_range 0 1 (error_update_prob a)"
    and "cl_split_merge_prob cl = Given val \<Longrightarrow>
           split_merge_prob a = NaN \<or> in_range 0 1 (split_merge_prob a)"
    and "cl_split_merge_ratios cl = Given vals \<Longrightarrow>
           (fst (split_merge_ratios a) = NaN \<or> in_range 0 1 (fst (split_merge_ratios a))) \<and>
           (snd (split_merge_ratios a) = NaN \<or> in_range 0 1 (snd (split_merge_ratios a)))"
    and "cl_lugsail cl = Given val \<Longrightarrow> lugsail a = NaN \<or> in_range 1 (3 / 2) (lugsail a)"
  using parse_args_Inr [OF assms]
  by (auto simp: option_value_Given check_percent_Inr check_PSRF_cutoff_Inr nargs2_Inr)

subsection \<open>Masks\<close>

lemma select_Nil [simp]: "select [] xs = []" "select ks [] = []"
  by (simp_all add: select_def)

lemma select_Cons [simp]:
  "select (k # ks) (x # xs) = (if k then x # select ks xs else select ks xs)"
  by (simp add: select_def)

lemma length_select:
  "length xs = length ks \<Longrightarrow> length (select ks xs) = length (filter (\<lambda>b. b) ks)"
  by (induction ks xs rule: list_induct2') auto

lemma select_nth:
  "length xs = length ks \<Longrightarrow> j < length (filter (\<lambda>b. b) ks) \<Longrightarrow>
   select ks xs ! j = xs ! kept_index ks j \<and> kept_index ks j < length ks \<and> ks ! kept_index ks j"
proof (induction ks j arbitrary: xs rule: kept_index.induct)
  case (1 n)
  then show ?case by simp
next
  case (2 ks n)
  then show ?case by (cases xs) auto
next
  case (3 ks)
  then show ?case by (cases xs) auto
next
  case (4 ks n)
  then show ?case by (cases xs) auto
qed

lemma select_map_filter:
  "length xs = length ys \<Longrightarrow>
   select (map P xs) ys = map snd (filter (\<lambda>p. P (fst p)) (zip xs ys))"
  by (induction xs ys rule: list_induct2) auto

lemma count_true_map: "length (filter (\<lambda>b. b) (map P xs)) = length (filter P xs)"
  by (induction xs) auto

lemma mask_columns_Inr:
  "mask_columns m ks = Inr m' \<longleftrightarrow>
   length ks = ncols m \<and>
   m' = \<lparr> nrows = nrows m, ncols = length (filter (\<lambda>b. b) ks),
          cells = map (select ks) (cells m) \<rparr>"
  by (auto simp: mask_columns_def)

lemma mask_vector_Inr:
  "mask_vector v ks = Inr v' \<longleftrightarrow> length ks = length v \<and> v' = select ks v"
  by (auto simp: mask_vector_def)

subsection \<open>The column mask of \<^verbatim>\<open>main\<close>\<close>

lemma py_gt_mean_pos:
  "py_gt (isfinite_mean m j) (Finite 0) \<longleftrightarrow>
   nrows m \<noteq> 0 \<and> filter (\<lambda>r. isfinite (r ! j)) (cells m) \<noteq> []"
  by (simp add: isfinite_mean_def py_gt_def zero_less_divide_iff)

lemma rel_muts_has_finite_entry:
  assumes "length (cells m) = nrows m"
  shows "rel_muts m = map (has_finite_entry m) [0..<ncols m]"
proof -
  have "py_gt (isfinite_mean m j) (Finite 0) = has_finite_entry m j" for j
    using assms length_pos_if_in_set [of _ "cells m"]
    by (auto simp: py_gt_mean_pos has_finite_entry_def filter_empty_conv list_ex_iff)
  then show ?thesis by (simp add: rel_muts_def)
qed

lemma length_rel_muts [simp]: "length (rel_muts m) = ncols m"
  by (simp add: rel_muts_def)

subsection \<open>Tables under a row mask\<close>

lemma map_of_mask_rows:
  "map_of (mask_rows df ks) name = map_option (select ks) (map_of df name)"
  by (simp add: mask_rows_def map_of_map)

lemma getitem_mask_rows:
  "getitem (mask_rows df ks) name =
     (case map_of df name of None \<Rightarrow> Inl (KeyError name) | Some col \<Rightarrow> Inr (select ks col))"
  by (simp add: getitem_def map_of_mask_rows split: option.splits)

lemma wf_dataframe_col:
  "wf_dataframe df \<Longrightarrow> map_of df name = Some col \<Longrightarrow> length col = len_df df"
  by (auto simp: wf_dataframe_def list_all_iff dest!: map_of_SomeD)

lemma cancer_cells_total:
  assumes wf: "wf_dataframe df"
    and bc: "map_of df ''barcodes'' = Some barcodes"
    and co: "map_of df ''Corrected'' = Some corrected"
  shows "len_df (mask_rows (mask_rows df (map (\<lambda>b. b \<in> Str ` set names0) barcodes))
                  (map (\<lambda>c. c = Str ''Cancer'')
                     (select (map (\<lambda>b. b \<in> Str ` set names0) barcodes) corrected)))
         = cancer_cells barcodes corrected names0"
proof -
  let ?P = "\<lambda>b. b \<in> Str ` set names0"
  let ?k1 = "map ?P barcodes"
  let ?k2 = "map (\<lambda>c. c = Str ''Cancer'') (select ?k1 corrected)"
  from bc obtain name col rest where df: "df = (name, col) # rest"
    by (cases df) auto
  have lcol: "length col = len_df df"
    using wf by (simp add: df wf_dataframe_def len_df_def)
  have lb: "length barcodes = length col"
    using wf_dataframe_col [OF wf bc] lcol by simp
  have lc: "length corrected = length col"
    using wf_dataframe_col [OF wf co] lcol by simp
  have sel: "select ?k1 corrected = map snd (filter (\<lambda>p. ?P (fst p)) (zip barcodes corrected))"
    by (rule select_map_filter) (simp add: lb lc)
  have "len_df (mask_rows (mask_rows df ?k1) ?k2) = length (select ?k2 (select ?k1 col))"
    by (simp add: df len_df_def mask_rows_def)
  also have "\<dots> = length (filter (\<lambda>b. b) ?k2)"
    by (rule length_select) (simp add: length_select lb lc)
  also have "\<dots> = length (filter (\<lambda>c. c = Str ''Cancer'') (select ?k1 corrected))"
    by (rule count_true_map)
  also have "\<dots> = cancer_cells barcodes corrected names0"
    by (simp add: sel cancer_cells_def filter_map o_def case_prod_unfold)
  finally show ?thesis .
qed

subsection \<open>What \<^verbatim>\<open>main\<close> hands on\<close>

lemma main_data:
  assumes "main env a = Inr out"
    and "read_ctypes env (ctypes a) = Inr tbl"
    and "process_sim_folder env a = Inr a'"
    and "load_data env (input a') tbl (transpose_arg a') = Inr (d, f, n0, n1)"
  shows "out_data out = \<lparr> nrows = nrows d, ncols = length (filter (\<lambda>b. b) (rel_muts d)),
                           cells = map (select (rel_muts d)) (cells d) \<rparr>"
    and "out_data_frac out = \<lparr> nrows = nrows f, ncols = length (filter (\<lambda>b. b) (rel_muts d)),
                           cells = map (select (rel_muts d)) (cells f) \<rparr>"
    and "out_data_names out = (n0, select (rel_muts d) n1)"
    and "data_of (BnpC out) = out_data out"
    and "ncols f = ncols d" and "length n1 = ncols d"
  using assms
  by (auto simp: main_def and_then_Inr_iff Let_def mask_columns_Inr mask_vector_Inr
           split: if_splits)

subsection \<open>The example run\<close>

lemmas ex_defs =
  ex_env_def ex_table_def ex_table_plain_def ex_data_def ex_frac_def default_args_def

lemmas main_eval =
  main_def and_then_def Let_def getitem_def mask_rows_def rel_muts_def isfinite_mean_def
  py_gt_def py_ge_def upt_rec mask_columns_def mask_vector_def len_df_def np_sqrt_def

lemma ex_main_runs:
  assumes "ctypes a = Some c" and "scDNA a = Some s"
  shows "\<exists>out. main (ex_env ex_table) a = Inr out"
    and "\<exists>out. main (ex_env ex_table_plain) a = Inr out"
  using assms by (simp_all add: ex_defs main_eval)


lemma parse_args_ex: "parse_args ex_cmdline = Inr ex_args"
  by (simp add: ex_cmdline_def ex_args_def parse_args_plain)

lemmas ex_eval = ex_args_def ex_defs main_eval


section \<open>The error-rate mode\<close>

text \<open>
  C1.  If both fixed error rates are supplied, that is, \<^verbatim>\<open>args.falsePositive >= 0\<close> and
  \<^verbatim>\<open>args.falseNegative >= 0\<close> where \<^verbatim>\<open>main\<close> tests them, the error-update probability
  handed to \<^verbatim>\<open>MCMC\<close> is 0, whatever \<^verbatim>\<open>--error_update_prob\<close> the namespace held: the
  error-rate update is switched off for the whole run.
\<close>

theorem fixed_errors_force_zero_error_update:
  assumes "main env a = Inr out"
    and "process_sim_folder env a = Inr a'"
    and "py_ge (falsePositive a') (Finite 0)"
    and "py_ge (falseNegative a') (Finite 0)"
  shows "error_prob (mcmc out) = Finite 0 \<and> error_update_prob (out_args out) = Finite 0"
  using assms by (auto simp: main_def and_then_Inr_iff Let_def split: if_splits)

theorem fixed_errors_force_zero_error_update_witness:
  "py_ge (falsePositive (ex_args\<lparr>falseNegative := Finite (1 / 10),
       falsePositive := Finite (1 / 100), error_update_prob := Finite (9 / 10)\<rparr>)) (Finite 0) \<and>
   py_ge (falseNegative (ex_args\<lparr>falseNegative := Finite (1 / 10),
       falsePositive := Finite (1 / 100), error_update_prob := Finite (9 / 10)\<rparr>)) (Finite 0) \<and>
   map_sum id (error_prob \<circ> mcmc)
     (main (ex_env ex_table) (ex_args\<lparr>falseNegative := Finite (1 / 10),
        falsePositive := Finite (1 / 100), error_update_prob := Finite (9 / 10)\<rparr>))
     = Inr (Finite 0)"
proof -
  let ?a = "ex_args\<lparr>falseNegative := Finite (1 / 10), falsePositive := Finite (1 / 100),
              error_update_prob := Finite (9 / 10)\<rparr>"
  obtain out where m: "main (ex_env ex_table) ?a = Inr out"
    using ex_main_runs(1) [of ?a] by (auto simp: ex_args_def default_args_def)
  have p: "process_sim_folder (ex_env ex_table) ?a = Inr ?a"
    by (simp add: ex_env_def)
  have fp: "py_ge (falsePositive ?a) (Finite 0)" and fn: "py_ge (falseNegative ?a) (Finite 0)"
    by (simp_all add: py_ge_def)
  from fixed_errors_force_zero_error_update [OF m p fp fn] m fp fn
  show ?thesis by simp
qed

text \<open>
  C8.  Learned-errors mode is selected whenever at least one of the two fixed error rates
  is negative (as the default \<open>-1\<close> is): the model is built by \<^verbatim>\<open>CRP_errors_learning\<close>
  from the data, the concentration prior, the parameter prior and the four Beta-prior
  mean and standard-deviation options only, so a single supplied fixed rate is passed
  nowhere, and the sampler keeps the configured error-update probability.
\<close>

theorem learned_errors_mode:
  assumes "main env a = Inr out"
    and "process_sim_folder env a = Inr a'"
    and "py_lt (falseNegative a') (Finite 0) \<or> py_lt (falsePositive a') (Finite 0)"
  shows "BnpC out = CRP_errors_learning (out_data out) (DP_alpha_of (BnpC out)) (param_prior a')
            (falsePositive_mean a') (falsePositive_std a')
            (falseNegative_mean a') (falseNegative_std a') \<and>
         mcmc out = \<lparr> sm_prob = split_merge_prob a', dpa_prob = conc_update_prob a',
            error_prob = error_update_prob a', sm_ratios = split_merge_ratios a',
            sm_steps = split_merge_steps a' \<rparr>"
proof -
  from assms(3) have "\<not> (py_ge (falsePositive a') (Finite 0) \<and> py_ge (falseNegative a') (Finite 0))"
    using py_lt_not_py_ge by blast
  with assms(1,2) show ?thesis
    by (auto simp: main_def and_then_Inr_iff Let_def split: if_splits)
qed

theorem learned_errors_mode_witness:
  "parse_args (ex_cmdline\<lparr>cl_falseNegative := Given (Some (Finite (1 / 10)))\<rparr>)
     = Inr (ex_args\<lparr>falseNegative := Finite (1 / 10)\<rparr>) \<and>
   py_lt (falsePositive (ex_args\<lparr>falseNegative := Finite (1 / 10)\<rparr>)) (Finite 0) \<and>
   map_sum id BnpC (main (ex_env ex_table) (ex_args\<lparr>falseNegative := Finite (1 / 10)\<rparr>))
     = Inr (CRP_errors_learning
             \<lparr>nrows = 2, ncols = 2, cells = [[Finite 1, Finite 0], [NaN, Finite 1]]\<rparr>
             (Finite (- 4), Finite 1) (Finite (1 / 4), Finite (1 / 4))
             (Finite (1 / 100)) (Finite (1 / 100)) (Finite (1 / 5)) (Finite (1 / 10))) \<and>
   map_sum id (error_prob \<circ> mcmc)
     (main (ex_env ex_table) (ex_args\<lparr>falseNegative := Finite (1 / 10)\<rparr>))
     = Inr (Finite (1 / 4))"
proof -
  let ?a = "ex_args\<lparr>falseNegative := Finite (1 / 10)\<rparr>"
  have pa: "parse_args (ex_cmdline\<lparr>cl_falseNegative := Given (Some (Finite (1 / 10)))\<rparr>) = Inr ?a"
    by (simp add: ex_cmdline_def ex_args_def plain_cmdline_def default_args_def parse_args_def
          and_then_def option_value_def positional_def optional_str_def type_float_def)
  obtain out where m: "main (ex_env ex_table) ?a = Inr out"
    using ex_main_runs(1) [of ?a] by (auto simp: ex_args_def default_args_def)
  have p: "process_sim_folder (ex_env ex_table) ?a = Inr ?a"
    by (simp add: ex_env_def)
  have neg: "py_lt (falseNegative ?a) (Finite 0) \<or> py_lt (falsePositive ?a) (Finite 0)"
    and neg': "py_lt (falsePositive ?a) (Finite 0)"
    by (simp_all add: ex_args_def default_args_def)
  have d: "out_data out = \<lparr>nrows = 2, ncols = 2, cells = [[Finite 1, Finite 0], [NaN, Finite 1]]\<rparr>"
    and dp: "DP_alpha_of (BnpC out) = (Finite (- 4), Finite 1)"
    using m by (auto simp: ex_eval)
  from learned_errors_mode [OF m p neg] pa neg' m d dp
  show ?thesis by (simp add: ex_args_def default_args_def)
qed



text \<open>
  C5.  A configuration that selects fixed-error mode passes the configured
  \<^verbatim>\<open>falseNegative\<close> and \<^verbatim>\<open>falsePositive\<close> to \<^verbatim>\<open>CRP.CRP\<close> as they are, and both are
  at least 0: that is all the driver checks.  No upper bound is enforced before the model
  is built.
\<close>

theorem fixed_error_rates_nonnegative:
  assumes "main env a = Inr out"
    and "process_sim_folder env a = Inr a'"
    and "BnpC out = CRP data dp pb fn fp"
  shows "fn = falseNegative a' \<and> fp = falsePositive a' \<and>
         py_ge fn (Finite 0) \<and> py_ge fp (Finite 0)"
  using assms by (auto simp: main_def and_then_Inr_iff Let_def split: if_splits)

theorem fixed_error_rates_nonnegative_witness:
  "map_sum id BnpC
     (main (ex_env ex_table) (ex_args\<lparr>falseNegative := Finite 5, falsePositive := Finite 2\<rparr>))
     = Inr (CRP \<lparr>nrows = 2, ncols = 2, cells = [[Finite 1, Finite 0], [NaN, Finite 1]]\<rparr>
              (Finite (- 4), Finite 1) (Finite (1 / 4), Finite (1 / 4)) (Finite 5) (Finite 2)) \<and>
   py_ge (Finite 5) (Finite 0) \<and> py_ge (Finite 2) (Finite 0)"
proof -
  let ?a = "ex_args\<lparr>falseNegative := Finite 5, falsePositive := Finite 2\<rparr>"
  let ?d = "\<lparr>nrows = 2, ncols = 2, cells = [[Finite 1, Finite 0], [NaN, Finite 1]]\<rparr>"
  obtain out where m: "main (ex_env ex_table) ?a = Inr out"
    using ex_main_runs(1) [of ?a] by (auto simp: ex_args_def default_args_def)
  have p: "process_sim_folder (ex_env ex_table) ?a = Inr ?a"
    by (simp add: ex_env_def)
  have b: "BnpC out = CRP ?d (Finite (- 4), Finite 1) (Finite (1 / 4), Finite (1 / 4))
             (Finite 5) (Finite 2)"
    using m by (auto simp: ex_eval)
  from fixed_error_rates_nonnegative [OF m p b] m b
  show ?thesis by simp
qed

text \<open>The fixed rates passed to the model need not lie in \<open>[0, 1]\<close>, and values
  outside are not rejected: \<^verbatim>\<open>-FN 5 -FP 2\<close> is accepted and the model is built with
  these rates.\<close>

theorem fixed_error_rates_above_one_accepted:
  "map_sum id BnpC
     (run_BnpC (ex_env ex_table)
        (ex_cmdline\<lparr>cl_falseNegative := Given (Some (Finite 5)),
                     cl_falsePositive := Given (Some (Finite 2))\<rparr>))
     = Inr (CRP \<lparr>nrows = 2, ncols = 2, cells = [[Finite 1, Finite 0], [NaN, Finite 1]]\<rparr>
              (Finite (- 4), Finite 1) (Finite (1 / 4), Finite (1 / 4)) (Finite 5) (Finite 2)) \<and>
   \<not> in_range 0 1 (Finite 5) \<and> \<not> in_range 0 1 (Finite 2)"
proof -
  have pa: "parse_args (ex_cmdline\<lparr>cl_falseNegative := Given (Some (Finite 5)),
                                    cl_falsePositive := Given (Some (Finite 2))\<rparr>)
            = Inr (ex_args\<lparr>falseNegative := Finite 5, falsePositive := Finite 2\<rparr>)"
    by (simp add: ex_cmdline_def ex_args_def plain_cmdline_def default_args_def parse_args_def
          and_then_def option_value_def positional_def optional_str_def type_float_def)
  show ?thesis
    by (simp add: run_BnpC_def pa in_range_def) (simp add: ex_eval)
qed


section \<open>Debug mode\<close>

text \<open>
  C7.  When the debug flag is set, the chain count is overridden to 1 and \<^verbatim>\<open>mcmc.run\<close>
  is called with one chain and with the debug flag.
\<close>

theorem debug_runs_single_chain:
  assumes "main env a = Inr out"
    and "process_sim_folder env a = Inr a'"
    and "debug a'"
  shows "run_chains (mcmc_run out) = 1 \<and> run_debug (mcmc_run out) \<and>
         chains_arg (out_args out) = 1"
  using assms by (auto simp: main_def and_then_Inr_iff Let_def split: if_splits)

theorem debug_runs_single_chain_witness:
  "debug (ex_args\<lparr>debug := True, chains_arg := 4\<rparr>) \<and>
   map_sum id (run_chains \<circ> mcmc_run)
     (main (ex_env ex_table) (ex_args\<lparr>debug := True, chains_arg := 4\<rparr>)) = Inr 1 \<and>
   map_sum id (run_debug \<circ> mcmc_run)
     (main (ex_env ex_table) (ex_args\<lparr>debug := True, chains_arg := 4\<rparr>)) = Inr True"
proof -
  let ?a = "ex_args\<lparr>debug := True, chains_arg := 4\<rparr>"
  obtain out where m: "main (ex_env ex_table) ?a = Inr out"
    using ex_main_runs(1) [of ?a] by (auto simp: ex_args_def default_args_def)
  have p: "process_sim_folder (ex_env ex_table) ?a = Inr ?a"
    by (simp add: ex_env_def)
  have dbg: "debug ?a" by simp
  from debug_runs_single_chain [OF m p dbg] m
  show ?thesis by simp
qed


section \<open>Options of \<^verbatim>\<open>parse_args\<close>\<close>

text \<open>
  C10.  \<^verbatim>\<open>--transpose\<close> is declared \<^verbatim>\<open>store_false\<close>: the attribute is True when the flag
  is omitted and False when \<^verbatim>\<open>-t\<close>/\<^verbatim>\<open>--transpose\<close> is passed, so the flag switches
  transposition off.
\<close>

theorem transpose_store_false:
  assumes "parse_args cl = Inr a"
  shows "transpose_arg a = (\<not> cl_transpose cl)"
  using assms by (auto simp: parse_args_def and_then_Inr_iff)

theorem transpose_store_false_witness:
  "parse_args ex_cmdline = Inr ex_args \<and>
   \<not> cl_transpose ex_cmdline \<and> transpose_arg ex_args \<and>
   parse_args (ex_cmdline\<lparr>cl_transpose := True\<rparr>) = Inr (ex_args\<lparr>transpose_arg := False\<rparr>)"
proof -
  have pt: "parse_args (ex_cmdline\<lparr>cl_transpose := True\<rparr>) = Inr (ex_args\<lparr>transpose_arg := False\<rparr>)"
    by (simp add: ex_cmdline_def ex_args_def plain_cmdline_def default_args_def parse_args_def
          and_then_def option_value_def positional_def optional_str_def)
  from transpose_store_false [OF parse_args_ex] transpose_store_false [OF pt] parse_args_ex pt
  show ?thesis by (simp add: ex_cmdline_def plain_cmdline_def)
qed

text \<open>
  C4.  The cutoff \<open>-1\<close>, at which the convergence diagnostic is off, is the default of
  \<^verbatim>\<open>--lugsail\<close> and reaches the namespace exactly when the option is omitted, because a
  default is not passed through \<^verbatim>\<open>check_PSRF_cutoff\<close>.  A cutoff that is given is
  checked: it is accepted only when it is not below 1 and not above 1.5, so it is never
  \<open>-1\<close>.
\<close>

theorem lugsail_minus_one_only_by_default:
  assumes "parse_args cl = Inr a"
  shows "(lugsail a = Finite (- 1)) = (cl_lugsail cl = Omitted) \<and>
         (\<forall>val. cl_lugsail cl = Given val \<longrightarrow>
            val = Some (lugsail a) \<and>
            \<not> py_lt (lugsail a) (Finite 1) \<and> \<not> py_gt (lugsail a) (Finite (3 / 2)))"
proof (cases "cl_lugsail cl")
  case Omitted
  with parse_args_Inr(5) [OF assms] show ?thesis
    by (simp add: option_value_Omitted)
next
  case (Given val)
  with parse_args_Inr(5) [OF assms] show ?thesis
    by (auto simp: option_value_Given check_PSRF_cutoff_def py_gt_def
             split: option.splits if_splits)
qed

theorem lugsail_minus_one_only_by_default_witness:
  "parse_args ex_cmdline = Inr ex_args \<and> cl_lugsail ex_cmdline = Omitted \<and>
   lugsail ex_args = Finite (- 1) \<and>
   parse_args (ex_cmdline\<lparr>cl_lugsail := Given (Some (Finite (105 / 100)))\<rparr>)
     = Inr (ex_args\<lparr>lugsail := Finite (105 / 100)\<rparr>) \<and>
   \<not> py_lt (Finite (105 / 100)) (Finite 1) \<and> \<not> py_gt (Finite (105 / 100)) (Finite (3 / 2))"
proof -
  have pl: "parse_args (ex_cmdline\<lparr>cl_lugsail := Given (Some (Finite (105 / 100)))\<rparr>)
              = Inr (ex_args\<lparr>lugsail := Finite (105 / 100)\<rparr>)"
    by (simp add: ex_cmdline_def ex_args_def plain_cmdline_def default_args_def parse_args_def
          and_then_def option_value_def positional_def optional_str_def
          check_PSRF_cutoff_def py_gt_def)
  from lugsail_minus_one_only_by_default [OF parse_args_ex]
       lugsail_minus_one_only_by_default [OF pl] parse_args_ex pl
  show ?thesis by (simp add: ex_cmdline_def plain_cmdline_def)
qed

text \<open>A user cannot pass \<^verbatim>\<open>--lugsail -1\<close>: the command line is rejected and
  nothing runs.\<close>

theorem explicit_lugsail_minus_one_rejected:
  "parse_args (ex_cmdline\<lparr>cl_lugsail := Given (Some (Finite (- 1)))\<rparr>) = Inl ArgumentTypeError \<and>
   run_BnpC (ex_env ex_table) (ex_cmdline\<lparr>cl_lugsail := Given (Some (Finite (- 1)))\<rparr>)
     = Inl ArgumentTypeError"
proof -
  have "parse_args (ex_cmdline\<lparr>cl_lugsail := Given (Some (Finite (- 1)))\<rparr>)
          = Inl ArgumentTypeError"
    by (simp add: ex_cmdline_def plain_cmdline_def parse_args_def
          and_then_def option_value_def positional_def optional_str_def
          check_PSRF_cutoff_def py_gt_def)
  then show ?thesis by (simp add: run_BnpC_def and_then_def)
qed

text \<open>
  C3.  A probability option outside \<open>[0, 1]\<close> and a cutoff outside \<open>[1, 1.5]\<close> is to be
  rejected by \<^verbatim>\<open>parse_args\<close>.  The checks are written as two comparisons, both False on
  NaN: \<^verbatim>\<open>--burn_in nan\<close> is accepted, NaN is not in the interval
  (\<^verbatim>\<open>0 <= x <= 1\<close>, as the function's own message puts it, is False), and the run
  goes on with \<^verbatim>\<open>burn_in = nan\<close>.  The same holds for \<^verbatim>\<open>check_PSRF_cutoff\<close>.
\<close>

theorem check_percent_accepts_nan:
  "check_percent (Some NaN) = Inr NaN \<and> \<not> in_range 0 1 NaN \<and>
   check_PSRF_cutoff (Some NaN) = Inr NaN \<and> \<not> in_range 1 (3 / 2) NaN \<and>
   parse_args (ex_cmdline\<lparr>cl_burn_in := Given (Some NaN)\<rparr>) = Inr (ex_args\<lparr>burn_in := NaN\<rparr>) \<and>
   map_sum id (burn_in \<circ> out_args)
     (run_BnpC (ex_env ex_table) (ex_cmdline\<lparr>cl_burn_in := Given (Some NaN)\<rparr>)) = Inr NaN"
proof -
  have pa: "parse_args (ex_cmdline\<lparr>cl_burn_in := Given (Some NaN)\<rparr>)
              = Inr (ex_args\<lparr>burn_in := NaN\<rparr>)"
    by (simp add: ex_cmdline_def ex_args_def plain_cmdline_def default_args_def parse_args_def
          and_then_def option_value_def positional_def optional_str_def
          check_percent_def py_gt_def)
  have run: "map_sum id (burn_in \<circ> out_args)
               (run_BnpC (ex_env ex_table) (ex_cmdline\<lparr>cl_burn_in := Given (Some NaN)\<rparr>))
             = Inr NaN"
    by (simp add: run_BnpC_def pa) (simp add: ex_eval)
  show ?thesis
    using pa run by (simp add: check_percent_def check_PSRF_cutoff_def py_gt_def in_range_def)
qed


section \<open>The columns handed to the model\<close>

text \<open>
  C9.  Before the model is built, the data matrix, the fraction matrix and the vector of
  mutation names are filtered by one column mask, which keeps the columns of the data
  matrix that have a finite entry in some cell.  So every column without any finite
  entry is removed, every column left has one, and the three column counts are equal.
  The model is built on the filtered data matrix.
\<close>

theorem all_missing_columns_removed:
  assumes "main env a = Inr out"
    and "read_ctypes env (ctypes a) = Inr tbl"
    and "process_sim_folder env a = Inr a'"
    and "load_data env (input a') tbl (transpose_arg a') = Inr (d, f, n0, n1)"
    and "wf_matrix d"
  shows "(let keep = map (has_finite_entry d) [0..<ncols d] in
            cells (out_data out) = map (select keep) (cells d) \<and>
            cells (out_data_frac out) = map (select keep) (cells f) \<and>
            snd (out_data_names out) = select keep n1) \<and>
         data_of (BnpC out) = out_data out \<and>
         ncols (out_data_frac out) = ncols (out_data out) \<and>
         length (snd (out_data_names out)) = ncols (out_data out) \<and>
         wf_matrix (out_data out) \<and>
         (\<forall>j < ncols (out_data out). has_finite_entry (out_data out) j)"
proof -
  note md = main_data [OF assms(1-4)]
  from assms(5) have len: "length (cells d) = nrows d"
    and rows: "\<And>r. r \<in> set (cells d) \<Longrightarrow> length r = ncols d"
    by (auto simp: wf_matrix_def list_all_iff)
  define keep where "keep = map (has_finite_entry d) [0..<ncols d]"
  have rm: "rel_muts d = keep"
    unfolding keep_def by (rule rel_muts_has_finite_entry [OF len])
  have lk: "length keep = ncols d" by (simp add: keep_def)
  have wf: "wf_matrix (out_data out)"
    using len rows lk by (simp add: md(1) rm wf_matrix_def list_all_iff length_select)
  have fin: "has_finite_entry (out_data out) j" if j: "j < ncols (out_data out)" for j
  proof -
    from j have j': "j < length (filter (\<lambda>b. b) keep)" by (simp add: md(1) rm)
    let ?i = "kept_index keep j"
    have sel: "select keep r ! j = r ! ?i" if "r \<in> set (cells d)" for r
      using select_nth [of r keep j] rows [OF that] lk j' by simp
    have "?i < length keep" "keep ! ?i"
      using select_nth [of keep keep j] j' by simp_all
    then have "has_finite_entry d ?i" by (simp add: keep_def)
    then obtain r where "r \<in> set (cells d)" "isfinite (r ! ?i)"
      by (auto simp: has_finite_entry_def list_ex_iff)
    then show ?thesis
      using sel by (auto simp: has_finite_entry_def list_ex_iff md(1) rm)
  qed
  show ?thesis
    using wf fin md lk by (simp add: rm Let_def keep_def [symmetric] length_select)
qed

theorem all_missing_columns_removed_witness:
  "wf_matrix ex_data \<and>
   map (has_finite_entry ex_data) [0..<ncols ex_data] = [True, False, True] \<and>
   map_sum id out_data (main (ex_env ex_table) ex_args)
     = Inr \<lparr>nrows = 2, ncols = 2, cells = [[Finite 1, Finite 0], [NaN, Finite 1]]\<rparr> \<and>
   map_sum id (cells \<circ> out_data_frac) (main (ex_env ex_table) ex_args)
     = Inr [[Finite (1 / 2), Finite 0], [NaN, Finite 1]] \<and>
   map_sum id (snd \<circ> out_data_names) (main (ex_env ex_table) ex_args) = Inr [''m1'', ''m3'']"
proof -
  obtain out where m: "main (ex_env ex_table) ex_args = Inr out"
    using ex_main_runs(1) [of ex_args] by (auto simp: ex_args_def default_args_def)
  have c: "read_ctypes (ex_env ex_table) (ctypes ex_args) = Inr ex_table"
    by (simp add: ex_env_def ex_args_def default_args_def)
  have p: "process_sim_folder (ex_env ex_table) ex_args = Inr ex_args"
    by (simp add: ex_env_def)
  have l: "load_data (ex_env ex_table) (input ex_args) ex_table (transpose_arg ex_args)
             = Inr (ex_data, ex_frac, [''c1'', ''c2''], [''m1'', ''m2'', ''m3''])"
    by (simp add: ex_env_def)
  have w: "wf_matrix ex_data"
    by (simp add: wf_matrix_def ex_data_def)
  have k: "map (has_finite_entry ex_data) [0..<ncols ex_data] = [True, False, True]"
    by (simp add: has_finite_entry_def ex_data_def upt_rec)
  have n: "nrows (out_data out) = 2" "ncols (out_data out) = 2"
    using m by (auto simp: ex_eval)
  from all_missing_columns_removed [OF m c p l w] m w k n
  show ?thesis by (simp add: ex_data_def ex_frac_def)
qed


section \<open>The concentration prior\<close>

text \<open>
  C6.  When the default concentration prior must be derived (a component of
  \<^verbatim>\<open>--DPa_prior\<close> is negative) and the cell-type table has no column \<^verbatim>\<open>Corrected\<close>,
  the \<^verbatim>\<open>KeyError\<close> is caught: provided the collaborators return and the shapes of what
  they return fit, the run goes on and the model is built with the prior
  \<open>(sqrt N, 1)\<close>, \<open>N\<close> the number of cells of the data matrix.
\<close>

theorem missing_corrected_falls_back:
  assumes "read_ctypes env (ctypes a) = Inr tbl"
    and "read_scDNA env (scDNA a) = Inr sc"
    and "process_sim_folder env a = Inr a'"
    and "load_data env (input a') tbl (transpose_arg a') = Inr (d, f, n0, n1)"
    and "map_of tbl ''barcodes'' = Some barcodes"
    and "ncols f = ncols d" and "length n1 = ncols d"
    and "\<And>x. \<exists>rv. get_mcmc_termination env x = Inr rv"
    and "py_lt (fst (DPa_prior a')) (Finite 0) \<or> py_lt (snd (DPa_prior a')) (Finite 0)"
    and "map_of tbl ''Corrected'' = None"
  shows "\<exists>out. main env a = Inr out \<and> DP_alpha_of (BnpC out) = (np_sqrt (nrows d), Finite 1)"
proof -
  let ?fixed = "py_ge (falsePositive a') (Finite 0) \<and> py_ge (falseNegative a') (Finite 0)"
  let ?a2 = "if ?fixed then a'\<lparr>error_update_prob := Finite 0\<rparr> else a'"
  from assms(8) obtain rv where rv: "get_mcmc_termination env ?a2 = Inr rv" by blast
  have gi: "getitem tbl ''barcodes'' = Inr barcodes"
    using assms(5) by (simp add: getitem_def)
  show ?thesis
    using assms(1-4,6,7,9,10) rv gi
    by (auto simp: main_def and_then_def Let_def getitem_mask_rows mask_columns_def
          mask_vector_def split: if_splits)
qed

theorem missing_corrected_falls_back_witness:
  "map_of ex_table_plain ''Corrected'' = None \<and>
   py_lt (fst (DPa_prior ex_args)) (Finite 0) \<and>
   map_sum id (DP_alpha_of \<circ> BnpC) (main (ex_env ex_table_plain) ex_args)
     = Inr (np_sqrt 2, Finite 1)"
proof -
  let ?E = "ex_env ex_table_plain"
  have c: "read_ctypes ?E (ctypes ex_args) = Inr ex_table_plain"
    and s: "read_scDNA ?E (scDNA ex_args) = Inr []"
    by (simp_all add: ex_env_def ex_args_def default_args_def)
  have p: "process_sim_folder ?E ex_args = Inr ex_args"
    by (simp add: ex_env_def)
  have l: "load_data ?E (input ex_args) ex_table_plain (transpose_arg ex_args)
             = Inr (ex_data, ex_frac, [''c1'', ''c2''], [''m1'', ''m2'', ''m3''])"
    by (simp add: ex_env_def)
  have b: "map_of ex_table_plain ''barcodes'' = Some [Str ''c1'', Str ''c9'', Str ''c2'']"
    and k: "map_of ex_table_plain ''Corrected'' = None"
    by (simp_all add: ex_table_plain_def)
  have sh: "ncols ex_frac = ncols ex_data" "length [''m1'', ''m2'', ''m3''] = ncols ex_data"
    by (simp_all add: ex_frac_def ex_data_def)
  have t: "\<exists>rv. get_mcmc_termination ?E x = Inr rv" for x
    by (simp add: ex_env_def)
  have dflt: "py_lt (fst (DPa_prior ex_args)) (Finite 0) \<or> py_lt (snd (DPa_prior ex_args)) (Finite 0)"
    and dflt': "py_lt (fst (DPa_prior ex_args)) (Finite 0)"
    by (simp_all add: ex_args_def default_args_def)
  from missing_corrected_falls_back [OF c s p l b sh t dflt k] k dflt'
  show ?thesis by (auto simp: ex_data_def)
qed

text \<open>
  What \<^verbatim>\<open>main\<close> computes when the concentration prior is left at its default (a
  component of \<^verbatim>\<open>--DPa_prior\<close> is negative).  The table \<open>tbl\<close> is the prepared
  cell-type table, that is, the table after \<^verbatim>\<open>main\<close> has dropped the rows of the
  distal biopsy.  Without a column \<^verbatim>\<open>Corrected\<close> the prior is \<open>(sqrt N, 1)\<close>,
  \<open>N\<close> the number of cells of the data matrix; with one it is \<open>(sqrt C - 5, 1)\<close>,
  \<open>C\<close> the number of rows of the prepared table whose barcode is a cell of the data
  and whose \<^verbatim>\<open>Corrected\<close> entry is \<^verbatim>\<open>'Cancer'\<close>.
\<close>

lemma default_prior_derivation:
  assumes "main env a = Inr out"
    and "read_ctypes env (ctypes a) = Inr tbl"
    and "process_sim_folder env a = Inr a'"
    and "load_data env (input a') tbl (transpose_arg a') = Inr (d, f, n0, n1)"
    and "wf_dataframe tbl"
    and "py_lt (fst (DPa_prior a')) (Finite 0) \<or> py_lt (snd (DPa_prior a')) (Finite 0)"
  shows "\<exists>barcodes. map_of tbl ''barcodes'' = Some barcodes \<and>
         DP_alpha_of (BnpC out) =
           (case map_of tbl ''Corrected'' of
              None \<Rightarrow> (np_sqrt (nrows d), Finite 1)
            | Some corrected \<Rightarrow>
                (py_sub (np_sqrt (cancer_cells barcodes corrected n0)) (Finite 5), Finite 1))"
proof -
  from assms(1-4) obtain barcodes where bc: "getitem tbl ''barcodes'' = Inr barcodes"
    by (auto simp: main_def and_then_Inr_iff)
  then have bc': "map_of tbl ''barcodes'' = Some barcodes"
    by (auto simp: getitem_def split: option.splits)
  show ?thesis
  proof (cases "map_of tbl ''Corrected''")
    case None
    with assms(1-4,6) bc show ?thesis
      by (auto simp: main_def and_then_Inr_iff Let_def getitem_mask_rows mask_columns_Inr bc'
               split: if_splits)
  next
    case (Some corrected)
    note ct = cancer_cells_total [OF assms(5) bc' Some, of n0]
    from assms(1-4,6) bc Some show ?thesis
      by (auto simp: main_def and_then_Inr_iff Let_def getitem_mask_rows ct bc'
               split: if_splits)
  qed
qed

lemma default_prior_derivation_example:
  "wf_dataframe ex_table \<and>
   py_lt (fst (DPa_prior ex_args)) (Finite 0) \<and>
   cancer_cells [Str ''c1'', Str ''c9'', Str ''c2'']
     [Str ''Cancer'', Str ''Cancer'', Str ''Normal''] [''c1'', ''c2''] = 1 \<and>
   map_sum id (DP_alpha_of \<circ> BnpC) (main (ex_env ex_table) ex_args)
     = Inr (py_sub (np_sqrt 1) (Finite 5), Finite 1)"
proof -
  let ?E = "ex_env ex_table"
  obtain out where m: "main ?E ex_args = Inr out"
    using ex_main_runs(1) [of ex_args] by (auto simp: ex_args_def default_args_def)
  have c: "read_ctypes ?E (ctypes ex_args) = Inr ex_table"
    by (simp add: ex_env_def ex_args_def default_args_def)
  have p: "process_sim_folder ?E ex_args = Inr ex_args"
    by (simp add: ex_env_def)
  have l: "load_data ?E (input ex_args) ex_table (transpose_arg ex_args)
             = Inr (ex_data, ex_frac, [''c1'', ''c2''], [''m1'', ''m2'', ''m3''])"
    by (simp add: ex_env_def)
  have w: "wf_dataframe ex_table"
    by (simp add: wf_dataframe_def ex_table_def ex_table_plain_def len_df_def)
  have dflt: "py_lt (fst (DPa_prior ex_args)) (Finite 0) \<or> py_lt (snd (DPa_prior ex_args)) (Finite 0)"
    and dflt': "py_lt (fst (DPa_prior ex_args)) (Finite 0)"
    by (simp_all add: ex_args_def default_args_def)
  have n: "cancer_cells [Str ''c1'', Str ''c9'', Str ''c2'']
             [Str ''Cancer'', Str ''Cancer'', Str ''Normal''] [''c1'', ''c2''] = 1"
    by (simp add: cancer_cells_def)
  from default_prior_derivation [OF m c p l w dflt] m w dflt' n
  show ?thesis by (auto simp: ex_table_def ex_table_plain_def)
qed

text \<open>
  C2.  When the concentration prior is left at its default, the prior the model is built
  with is to be \<open>(sqrt N, 1)\<close>, \<open>N\<close> the number of cells of the data matrix; the
  help of \<^verbatim>\<open>--DPa_prior\<close> says the same (\<^verbatim>\<open>Default = (sqrt(#cells), 1)\<close>).  \<^verbatim>\<open>main\<close>
  does so only in the \<^verbatim>\<open>except KeyError\<close> branch.  Where the prepared table has the
  column \<^verbatim>\<open>Corrected\<close>, the \<^verbatim>\<open>else\<close> branch takes \<open>sqrt C - 5\<close> from the count of
  cancer cells instead: with two cells in the data, one of them a cancer cell, the model
  is built with the prior \<open>(-4, 1)\<close>, not \<open>(sqrt 2, 1)\<close>, and its first component,
  the shape of a Gamma distribution, is negative.
\<close>

theorem default_prior_not_sqrt_cells:
  "cl_DPa_prior ex_cmdline = Omitted \<and> nrows ex_data = 2 \<and>
   map_of ex_table ''Corrected'' = Some [Str ''Cancer'', Str ''Cancer'', Str ''Normal''] \<and>
   py_lt (Finite (- 4)) (Finite 0) \<and>
   map_sum id (data_of \<circ> BnpC) (run_BnpC (ex_env ex_table) ex_cmdline)
     = Inr \<lparr>nrows = 2, ncols = 2, cells = [[Finite 1, Finite 0], [NaN, Finite 1]]\<rparr> \<and>
   map_sum id (DP_alpha_of \<circ> BnpC) (run_BnpC (ex_env ex_table) ex_cmdline)
     = Inr (Finite (- 4), Finite 1) \<and>
   (Finite (- 4), Finite 1) \<noteq> (np_sqrt 2, Finite 1)"
proof -
  have "(0::real) \<le> sqrt 2" by simp
  then have "sqrt 2 \<noteq> (- 4::real)" by linarith
  then have ne: "(Finite (- 4), Finite 1) \<noteq> (np_sqrt 2, Finite 1)"
    by (simp add: np_sqrt_def)
  have om: "cl_DPa_prior ex_cmdline = Omitted"
    by (simp add: ex_cmdline_def plain_cmdline_def)
  have run: "run_BnpC (ex_env ex_table) ex_cmdline = main (ex_env ex_table) ex_args"
    by (simp add: run_BnpC_def parse_args_ex and_then_def)
  have n: "nrows ex_data = 2"
    by (simp add: ex_data_def)
  have co: "map_of ex_table ''Corrected''
              = Some [Str ''Cancer'', Str ''Cancer'', Str ''Normal'']"
    by (simp add: ex_table_def ex_table_plain_def)
  show ?thesis
    unfolding run using ne om n co by (simp add: ex_eval)
qed


end
